theory Spec2Isabelle
  imports Complex_Main
begin

section \<open>Values shared by the whole script\<close>

text \<open>
  The script \<^verbatim>\<open>experiments/train_TUs.py\<close> is orchestration code on top of
  PyTorch. Every Python exception that the modelled lines can raise is a value of
  \<open>py_error\<close>, and a function that may raise returns \<open>py_error + 'a\<close> with the
  exception on the left. Python floats are idealised as reals: the formulas of the
  script are kept, rounding is not modelled.

  Library behaviour the model relies on:
  \<^item> \<^verbatim>\<open>torch.cat\<close> of an empty Python list raises a RuntimeError
    ("expected a non-empty list of Tensors");
  \<^item> \<^verbatim>\<open>tensor.cuda()\<close> raises when no CUDA device is available;
  \<^item> \<^verbatim>\<open>tensor.max(dim=1)\<close> raises on a dimension of size zero and returns
    the index of the first maximal entry of each row;
  \<^item> a true division by zero raises ZeroDivisionError;
  \<^item> reading a local variable that was never assigned raises UnboundLocalError;
  \<^item> \<^verbatim>\<open>optim.AdamW\<close> raises ValueError for a negative learning rate or weight
    decay;
  \<^item> \<^verbatim>\<open>np.mean\<close> and \<^verbatim>\<open>np.std\<close> of an empty list are \<^verbatim>\<open>nan\<close> (a warning, no
    exception).
\<close>

datatype py_error =
    ZeroDivisionError
  | CudaUnavailable
  | CatEmptyList
  | ReduceEmptyDim
  | ShapeMismatch
  | UnboundLocalError
  | ValueError

text \<open>\<^verbatim>\<open>a / b\<close> on Python numbers, the divisor being an integer.\<close>

definition py_div :: "real \<Rightarrow> int \<Rightarrow> py_error + real" where
  "py_div a b = (if b = 0 then Inl ZeroDivisionError else Inr (a / real_of_int b))"

text \<open>\<^verbatim>\<open>torch.cat(tensors)\<close> on a Python list of one-dimensional tensors.\<close>

definition torch_cat :: "'a list list \<Rightarrow> py_error + 'a list" where
  "torch_cat ts = (case ts of [] \<Rightarrow> Inl CatEmptyList | _ # _ \<Rightarrow> Inr (concat ts))"

section \<open>Batches and loaders\<close>

text \<open>
  A mini-batch carries the opaque graph data \<open>'g\<close>, the integer class labels
  \<^verbatim>\<open>batch.y\<close> and the device it lives on. A loader yields its batches in order;
  \<^verbatim>\<open>len(loader)\<close> is the number of batches and \<^verbatim>\<open>len(loader.dataset)\<close> the
  number of samples.
\<close>

record 'g batch =
  graphs :: 'g
  batch_y :: "int list"
  on_cuda :: bool

record 'g loader =
  batches :: "'g batch list"
  dataset_len :: nat

text \<open>\<^verbatim>\<open>batch.cuda()\<close>, given whether a CUDA device is available.\<close>

definition cuda :: "bool \<Rightarrow> 'g batch \<Rightarrow> py_error + 'g batch" where
  "cuda available b = (if available then Inr (b\<lparr>on_cuda := True\<rparr>) else Inl CudaUnavailable)"

section \<open>The evaluator\<close>

text \<open>
  \<^verbatim>\<open>pred.max(dim=1)[1]\<close>: for every row of the model output the index of its first
  maximal entry.
\<close>

fun argmax_from :: "real \<Rightarrow> nat \<Rightarrow> nat \<Rightarrow> real list \<Rightarrow> nat" where
  "argmax_from best bi i [] = bi"
| "argmax_from best bi i (x # xs) =
     (if best < x then argmax_from x i (Suc i) xs else argmax_from best bi (Suc i) xs)"

definition argmax :: "real list \<Rightarrow> py_error + nat" where
  "argmax row = (case row of [] \<Rightarrow> Inl ReduceEmptyDim | x # xs \<Rightarrow> Inr (argmax_from x 0 1 xs))"

fun max_dim1 :: "real list list \<Rightarrow> py_error + nat list" where
  "max_dim1 [] = Inr []"
| "max_dim1 (row # rows) =
     (case argmax row of
        Inl e \<Rightarrow> Inl e
      | Inr i \<Rightarrow> (case max_dim1 rows of Inl e \<Rightarrow> Inl e | Inr js \<Rightarrow> Inr (i # js)))"

text \<open>
  \<^verbatim>\<open>pred.eq(batch.y).sum().item()\<close> on one-dimensional tensors: elementwise
  comparison when the sizes agree, broadcasting when one side has a single element, a
  RuntimeError otherwise.
\<close>

definition eq_sum :: "nat list \<Rightarrow> int list \<Rightarrow> py_error + nat" where
  "eq_sum pred ys =
     (if length pred = length ys
        then Inr (length (filter (\<lambda>(p, t). int p = t) (zip pred ys)))
      else if length pred = 1
        then Inr (length (filter (\<lambda>t. int (hd pred) = t) ys))
      else if length ys = 1
        then Inr (length (filter (\<lambda>p. int p = hd ys) pred))
      else Inl ShapeMismatch)"

text \<open>
  The loop of \<^verbatim>\<open>eval_epoch\<close> (lines 180 to 185). The accumulator is
  \<^verbatim>\<open>correct\<close>; \<^verbatim>\<open>running_loss\<close>, \<^verbatim>\<open>y_pred\<close> and \<^verbatim>\<open>y_true\<close> are not
  touched by the loop body. The batch is moved to CUDA whatever \<^verbatim>\<open>use_cuda\<close> says.
\<close>

fun eval_batches ::
  "bool \<Rightarrow> ('g batch \<Rightarrow> real list list) \<Rightarrow> 'g batch list \<Rightarrow> nat \<Rightarrow> py_error + nat" where
  "eval_batches available model [] correct = Inr correct"
| "eval_batches available model (b # bs) correct =
     (case cuda available b of
        Inl e \<Rightarrow> Inl e
      | Inr b' \<Rightarrow>
          (case max_dim1 (model b') of
             Inl e \<Rightarrow> Inl e
           | Inr pred \<Rightarrow>
               (case eq_sum pred (batch_y b') of
                  Inl e \<Rightarrow> Inl e
                | Inr k \<Rightarrow> eval_batches available model bs (correct + k))))"

text \<open>
  Lines 191 to 200: the two quotients and the returned pair \<^verbatim>\<open>(score, epoch_loss)\<close>.
\<close>

definition eval_report :: "real \<Rightarrow> nat \<Rightarrow> 'g loader \<Rightarrow> py_error + (real \<times> real)" where
  "eval_report running_loss correct loader =
     (let n_sample = dataset_len loader in
      case py_div running_loss (int n_sample) of
        Inl e \<Rightarrow> Inl e
      | Inr epoch_loss \<Rightarrow>
          (case py_div (real correct) (int (dataset_len loader)) of
             Inl e \<Rightarrow> Inl e
           | Inr score \<Rightarrow> Inr (score, epoch_loss)))"

text \<open>
  \<^verbatim>\<open>eval_epoch(model, loader, criterion, use_cuda=False, split='Val')\<close>. The first
  argument of the model says whether a CUDA device is available
  (\<^verbatim>\<open>torch.cuda.is_available()\<close>). Between the loop and the report the function
  concatenates the lists \<^verbatim>\<open>y_pred\<close> and \<^verbatim>\<open>y_true\<close>, which are still the empty
  lists of lines 174 and 175.
\<close>

definition eval_epoch ::
  "bool \<Rightarrow> ('g batch \<Rightarrow> real list list) \<Rightarrow> 'g loader \<Rightarrow> 'c \<Rightarrow> bool \<Rightarrow> string
     \<Rightarrow> py_error + (real \<times> real)" where
  "eval_epoch available model loader criterion use_cuda split =
     (let running_loss = 0;
          y_pred = ([] :: int list list);
          y_true = ([] :: int list list)
      in case eval_batches available model (batches loader) 0 of
           Inl e \<Rightarrow> Inl e
         | Inr correct \<Rightarrow>
             (case torch_cat y_pred of
                Inl e \<Rightarrow> Inl e
              | Inr y_pred' \<Rightarrow>
                  (case torch_cat y_true of
                     Inl e \<Rightarrow> Inl e
                   | Inr y_true' \<Rightarrow> eval_report running_loss correct loader)))"

section \<open>The configuration\<close>

text \<open>
  The namespace that \<^verbatim>\<open>parser.parse_args()\<close> returns, with the four attributes
  that \<^verbatim>\<open>load_args\<close> adds (\<^verbatim>\<open>use_cuda\<close>, \<^verbatim>\<open>batch_norm\<close>, \<^verbatim>\<open>save_logs\<close> and the
  rewritten \<^verbatim>\<open>outdir\<close>). \<^verbatim>\<open>abs_pe\<close> is \<open>None\<close> when the option is absent.
\<close>

record args =
  seed :: int
  dataset :: string
  num_heads :: int
  num_layers :: int
  dim_hidden :: int
  dropout :: real
  epochs :: int
  lr :: real
  weight_decay :: real
  batch_size :: int
  abs_pe :: "string option"
  abs_pe_dim :: int
  outdir :: string
  warmup :: int
  layer_norm :: bool
  use_edge_attr :: bool
  edge_dim :: int
  gnn_type :: string
  k_hop :: int
  global_pool :: string
  se :: string
  aggr :: string
  not_extract_node_feature :: bool
  total_params :: int
  memory_usage :: int
  model_dim :: int
  device_id :: int
  use_cuda :: bool
  batch_norm :: bool
  save_logs :: bool

text \<open>\<^verbatim>\<open>'{}'.format(n)\<close> for a Python integer: its decimal digits, with a sign.\<close>

fun str_nat :: "nat \<Rightarrow> string" where
  "str_nat n =
     (if n < 10 then [''0123456789'' ! n]
      else str_nat (n div 10) @ [''0123456789'' ! (n mod 10)])"

definition str_int :: "int \<Rightarrow> string" where
  "str_int i = (if i < 0 then CHR ''-'' # str_nat (nat (- i)) else str_nat (nat i))"

text \<open>\<^verbatim>\<open>'{}_{}_..._{}'.format(...)\<close>: the rendered fields joined by underscores.\<close>

fun format_underscore :: "string list \<Rightarrow> string" where
  "format_underscore [] = []"
| "format_underscore [p] = p"
| "format_underscore (p # q # ps) = p @ ''_'' @ format_underscore (q # ps)"

text \<open>
  The file system as the script sees it: the paths that exist and the files the run
  wrote, latest first. \<open>'f\<close> is what a written file holds.
\<close>

record 'f filesystem =
  existing :: "string list"
  written :: "(string \<times> 'f) list"

text \<open>
  Lines 80 to 84 and their four repetitions: create the directory unless the path
  exists; a failing \<^verbatim>\<open>os.makedirs\<close> is swallowed. \<open>can_make\<close> says for which paths
  the creation succeeds.
\<close>

definition ensure_dir :: "(string \<Rightarrow> bool) \<Rightarrow> string \<Rightarrow> 'f filesystem \<Rightarrow> 'f filesystem" where
  "ensure_dir can_make d fs =
     (if d \<in> set (existing fs) then fs
      else if can_make d then fs\<lparr>existing := d # existing fs\<rparr>
      else fs)"

text \<open>
  \<^verbatim>\<open>load_args()\<close> after \<^verbatim>\<open>parse_args\<close>. \<open>str_float\<close> is Python's rendering of a
  float, \<open>available\<close> is \<^verbatim>\<open>torch.cuda.is_available()\<close>. The result is the completed
  namespace and the file system after the directory creations.
\<close>

definition load_args ::
  "(real \<Rightarrow> string) \<Rightarrow> bool \<Rightarrow> (string \<Rightarrow> bool) \<Rightarrow> args \<Rightarrow> 'f filesystem
     \<Rightarrow> args \<times> 'f filesystem" where
  "load_args str_float available can_make parsed fs =
     (let a = parsed\<lparr>use_cuda := available, batch_norm := \<not> layer_norm parsed,
                      save_logs := False\<rparr>
      in if outdir a \<noteq> [] then
           (let a = a\<lparr>save_logs := True\<rparr>;
                d1 = outdir a;
                fs1 = ensure_dir can_make d1 fs;
                d2 = d1 @ ''/'' @ dataset a;
                fs2 = ensure_dir can_make d2 fs1;
                d3 = d2 @ ''/seed'' @ str_int (seed a);
                fs3 = ensure_dir can_make d3 fs2;
                d4 = (if use_edge_attr a then d3 @ ''/edge_attr'' else d3);
                fs4 = (if use_edge_attr a then ensure_dir can_make d4 fs3 else fs3);
                pedir = (case abs_pe a of
                           None \<Rightarrow> ''None''
                         | Some pe \<Rightarrow> format_underscore [pe, str_int (abs_pe_dim a)]);
                d5 = d4 @ ''/'' @ pedir;
                fs5 = ensure_dir can_make d5 fs4;
                bn = (if batch_norm a then ''BN'' else ''LN'');
                d6 = (if se a = ''khopgnn''
                      then d5 @ ''/'' @ format_underscore
                             [se a, gnn_type a, str_int (k_hop a), str_float (dropout a),
                              str_float (lr a), str_float (weight_decay a),
                              str_int (num_layers a), str_int (num_heads a),
                              str_int (dim_hidden a), bn]
                      else d5 @ ''/'' @ format_underscore
                             [gnn_type a, str_int (k_hop a), str_float (dropout a),
                              str_float (lr a), str_float (weight_decay a),
                              str_int (num_layers a), str_int (num_heads a),
                              str_int (dim_hidden a), bn]);
                fs6 = ensure_dir can_make d6 fs5
            in (a\<lparr>outdir := d6\<rparr>, fs6))
         else (a, fs))"

section \<open>The trainer\<close>

text \<open>
  The optimizer: the learning rate of each parameter group, and its opaque internal
  state (moments, the cosine scheduler's counter).
\<close>

record 'o optimizer =
  param_groups :: "real list"
  internals :: 'o

text \<open>
  What PyTorch and the machine supply. \<open>fit\<close> is lines 153 to 158 on one batch
  (zero the gradients, forward pass, loss, backward pass, optimizer step) and returns
  the new weights, the new optimizer and \<^verbatim>\<open>loss.item()\<close>; \<open>forward\<close> is the model
  in evaluation mode; \<open>sign_flip\<close> is the random sign flip of the Laplacian encoding
  drawn for batch \<open>i\<close> of an epoch; \<open>cosine_step\<close> is \<^verbatim>\<open>lr_scheduler.step()\<close>;
  \<open>gpu_utilization\<close> is what \<^verbatim>\<open>print_gpu_utilization\<close> returns; the three clock
  fields are the differences of clock readings the script takes.
\<close>

record ('w, 'g, 'o) env =
  cuda_available :: bool
  forward :: "'w \<Rightarrow> 'g batch \<Rightarrow> real list list"
  fit :: "'w \<Rightarrow> 'o optimizer \<Rightarrow> 'g batch \<Rightarrow> 'w \<times> 'o optimizer \<times> real"
  sign_flip :: "nat \<Rightarrow> nat \<Rightarrow> 'g batch \<Rightarrow> 'g batch"
  cosine_step :: "'o optimizer \<Rightarrow> 'o optimizer"
  gpu_utilization :: int
  epoch_seconds :: "nat \<Rightarrow> real"
  timer_seconds :: real
  time_seconds :: real

text \<open>Lines 282 to 284, the closure over \<^verbatim>\<open>lr_steps\<close>.\<close>

definition warmup_lr_scheduler :: "real \<Rightarrow> nat \<Rightarrow> real" where
  "warmup_lr_scheduler lr_steps s = real s * lr_steps"

text \<open>
  Lines 139 to 142: inside the warmup window every parameter group gets the scheduled
  rate of the current iteration.
\<close>

definition warmup_overwrite ::
  "int \<Rightarrow> (nat \<Rightarrow> real) \<Rightarrow> nat \<Rightarrow> nat \<Rightarrow> nat \<Rightarrow> 'o optimizer \<Rightarrow> 'o optimizer" where
  "warmup_overwrite warmup_epochs lr_scheduler epoch len_loader i optimizer =
     (if int epoch < warmup_epochs then
        (let iteration = epoch * len_loader + i
         in optimizer\<lparr>param_groups := map (\<lambda>_. lr_scheduler iteration) (param_groups optimizer)\<rparr>)
      else optimizer)"

text \<open>
  The loop of \<^verbatim>\<open>train_epoch\<close> over \<^verbatim>\<open>enumerate(loader)\<close>. The state is the model
  weights, the optimizer and \<^verbatim>\<open>running_loss\<close>.
\<close>

fun train_batches ::
  "('w, 'g, 'o) env \<Rightarrow> args \<Rightarrow> (nat \<Rightarrow> real) \<Rightarrow> nat \<Rightarrow> bool \<Rightarrow> nat
     \<Rightarrow> (nat \<times> 'g batch) list \<Rightarrow> 'w \<times> 'o optimizer \<times> real
     \<Rightarrow> py_error + ('w \<times> 'o optimizer \<times> real)" where
  "train_batches env a lr_scheduler epoch use_gpu len_loader [] st = Inr st"
| "train_batches env a lr_scheduler epoch use_gpu len_loader ((i, data) # rest)
     (model, optimizer, running_loss) =
     (let size = length (batch_y data);
          optimizer1 = warmup_overwrite (warmup a) lr_scheduler epoch len_loader i optimizer;
          data1 = (if abs_pe a = Some ''lap'' then sign_flip env epoch i data else data)
      in case (if use_gpu then cuda (cuda_available env) data1 else Inr data1) of
           Inl e \<Rightarrow> Inl e
         | Inr data2 \<Rightarrow>
             (case fit env model optimizer1 data2 of
                (model', optimizer', loss) \<Rightarrow>
                  train_batches env a lr_scheduler epoch use_gpu len_loader rest
                    (model', optimizer', running_loss + loss * real size)))"

text \<open>
  \<^verbatim>\<open>train_epoch(model, loader, criterion, optimizer, lr_scheduler, epoch, use_cuda)\<close>;
  the global \<^verbatim>\<open>args\<close> is the second argument. The model and the optimizer are
  mutated in place by the script and returned here beside the epoch loss.
\<close>

definition train_epoch ::
  "('w, 'g, 'o) env \<Rightarrow> args \<Rightarrow> 'w \<Rightarrow> 'g loader \<Rightarrow> 'c \<Rightarrow> 'o optimizer \<Rightarrow> (nat \<Rightarrow> real)
     \<Rightarrow> nat \<Rightarrow> bool \<Rightarrow> py_error + ('w \<times> 'o optimizer \<times> real)" where
  "train_epoch env a model loader criterion optimizer lr_scheduler epoch use_gpu =
     (case train_batches env a lr_scheduler epoch use_gpu (length (batches loader))
             (enumerate 0 (batches loader)) (model, optimizer, 0) of
        Inl e \<Rightarrow> Inl e
      | Inr (model', optimizer', running_loss) \<Rightarrow>
          (let n_sample = dataset_len loader in
           case py_div running_loss (int n_sample) of
             Inl e \<Rightarrow> Inl e
           | Inr epoch_loss \<Rightarrow> Inr (model', optimizer', epoch_loss)))"

section \<open>The run controller\<close>

text \<open>
  Floats that may be infinite or undefined: \<^verbatim>\<open>best_val_loss\<close> starts as
  \<^verbatim>\<open>float('inf')\<close>, and \<^verbatim>\<open>np.mean\<close> of an empty list is \<^verbatim>\<open>nan\<close>.
\<close>

datatype pyfloat = Fin real | PosInf | NaN

fun finites :: "pyfloat list \<Rightarrow> real list option" where
  "finites [] = Some []"
| "finites (Fin x # xs) = (case finites xs of None \<Rightarrow> None | Some rs \<Rightarrow> Some (x # rs))"
| "finites (PosInf # xs) = None"
| "finites (NaN # xs) = None"

definition np_mean :: "pyfloat list \<Rightarrow> pyfloat" where
  "np_mean xs =
     (if xs = [] \<or> NaN \<in> set xs then NaN
      else case finites xs of
             None \<Rightarrow> PosInf
           | Some rs \<Rightarrow> Fin (sum_list rs / real (length rs)))"

definition np_std :: "pyfloat list \<Rightarrow> pyfloat" where
  "np_std xs =
     (if xs = [] then NaN
      else case finites xs of
             None \<Rightarrow> NaN
           | Some rs \<Rightarrow>
               (let m = sum_list rs / real (length rs)
                in Fin (sqrt (sum_list (map (\<lambda>x. (x - m)\<^sup>2) rs) / real (length rs)))))"

text \<open>\<^verbatim>\<open>logs[k].append(v)\<close> on a \<^verbatim>\<open>defaultdict(list)\<close>.\<close>

definition log_append :: "string \<Rightarrow> real \<Rightarrow> (string \<rightharpoonup> real list) \<Rightarrow> (string \<rightharpoonup> real list)" where
  "log_append k v d = d(k \<mapsto> (case d k of None \<Rightarrow> [] | Some vs \<Rightarrow> vs) @ [v])"

text \<open>
  What lines 206 to 293 build from the configuration: the three loaders, the freshly
  constructed model with its parameter count, and the internal state of the new
  optimizer and scheduler.
\<close>

record ('w, 'g, 'o) prepared =
  train_loader :: "'g loader"
  val_loader :: "'g loader"
  test_loader :: "'g loader"
  new_model :: 'w
  new_internals :: 'o
  count_parameters :: int

text \<open>
  The variables of \<^verbatim>\<open>main\<close> that live across epochs. \<open>best_weights\<close> is \<open>None\<close>
  while the name \<^verbatim>\<open>best_weights\<close> is unbound: line 297 initialises
  \<^verbatim>\<open>best_model\<close>, not \<^verbatim>\<open>best_weights\<close>.
\<close>

record ('w, 'o) run_state =
  cur_args :: args
  cur_model :: 'w
  cur_optimizer :: "'o optimizer"
  best_val_loss :: pyfloat
  best_val_score :: real
  best_model :: "'w option"
  best_epoch :: nat
  best_weights :: "'w option"
  logs :: "string \<rightharpoonup> real list"
  per_epoch_time :: "real list"

type_synonym ('w, 'g, 'o) train_fn =
  "args \<Rightarrow> 'w \<Rightarrow> 'g loader \<Rightarrow> unit \<Rightarrow> 'o optimizer \<Rightarrow> (nat \<Rightarrow> real) \<Rightarrow> nat \<Rightarrow> bool
     \<Rightarrow> py_error + ('w \<times> 'o optimizer \<times> real)"

type_synonym ('w, 'g) eval_fn =
  "'w \<Rightarrow> 'g loader \<Rightarrow> unit \<Rightarrow> bool \<Rightarrow> string \<Rightarrow> py_error + (real \<times> real)"

text \<open>
  The body of the epoch loop, lines 304 to 325. The functions bound to the global
  names \<^verbatim>\<open>train_epoch\<close> and \<^verbatim>\<open>eval_epoch\<close> are arguments, so that the
  controller's bookkeeping is stated for whatever they return; \<open>main\<close> below passes
  the script's own two functions.
\<close>

definition epoch_step ::
  "('w, 'g, 'o) train_fn \<Rightarrow> ('w, 'g) eval_fn \<Rightarrow> ('w, 'g, 'o) env \<Rightarrow> ('w, 'g, 'o) prepared
     \<Rightarrow> (nat \<Rightarrow> real) \<Rightarrow> nat \<Rightarrow> ('w, 'o) run_state \<Rightarrow> py_error + ('w, 'o) run_state" where
  "epoch_step train_fn eval_fn env su lr_scheduler epoch st =
     (let a = cur_args st in
      case train_fn a (cur_model st) (train_loader su) () (cur_optimizer st) lr_scheduler
             epoch (use_cuda a) of
        Inl e \<Rightarrow> Inl e
      | Inr (m, opt, train_loss) \<Rightarrow>
          (case eval_fn m (val_loader su) () (use_cuda a) ''Val'' of
             Inl e \<Rightarrow> Inl e
           | Inr (val_score, val_loss) \<Rightarrow>
               (case eval_fn m (test_loader su) () (use_cuda a) ''Test'' of
                  Inl e \<Rightarrow> Inl e
                | Inr (test_score, test_loss) \<Rightarrow>
                    (let a1 = (if epoch = 1 then a\<lparr>memory_usage := gpu_utilization env\<rparr> else a);
                         opt1 = (if warmup a1 \<le> int epoch then cosine_step env opt else opt);
                         st1 = st\<lparr>cur_args := a1, cur_model := m, cur_optimizer := opt1,
                                  logs := log_append ''test_score'' test_score
                                            (log_append ''val_score'' val_score
                                               (log_append ''train_loss'' train_loss (logs st)))\<rparr>;
                         st2 = (if best_val_score st1 < val_score
                                then st1\<lparr>best_val_score := val_score,
                                         best_val_loss := Fin val_loss,
                                         best_epoch := epoch,
                                         best_weights := Some m\<rparr>
                                else st1)
                     in Inr (st2\<lparr>per_epoch_time :=
                                  per_epoch_time st2 @ [epoch_seconds env epoch]\<rparr>)))))"

fun epoch_loop ::
  "('w, 'g, 'o) train_fn \<Rightarrow> ('w, 'g) eval_fn \<Rightarrow> ('w, 'g, 'o) env \<Rightarrow> ('w, 'g, 'o) prepared
     \<Rightarrow> (nat \<Rightarrow> real) \<Rightarrow> nat list \<Rightarrow> ('w, 'o) run_state \<Rightarrow> py_error + ('w, 'o) run_state" where
  "epoch_loop train_fn eval_fn env su lr_scheduler [] st = Inr st"
| "epoch_loop train_fn eval_fn env su lr_scheduler (epoch # rest) st =
     (case epoch_step train_fn eval_fn env su lr_scheduler epoch st of
        Inl e \<Rightarrow> Inl e
      | Inr st' \<Rightarrow> epoch_loop train_fn eval_fn env su lr_scheduler rest st')"

text \<open>Lines 295 to 301 (and the model and optimizer of lines 251 to 276).\<close>

definition initial_state :: "args \<Rightarrow> ('w, 'g, 'o) prepared \<Rightarrow> ('w, 'o) run_state" where
  "initial_state a su =
     \<lparr>cur_args = a, cur_model = new_model su,
      cur_optimizer = \<lparr>param_groups = [lr a], internals = new_internals su\<rparr>,
      best_val_loss = PosInf, best_val_score = 0, best_model = None, best_epoch = 0,
      best_weights = None, logs = Map.empty, per_epoch_time = []\<rparr>"

text \<open>The best-checkpoint record: score, loss, epoch and parameter snapshot.\<close>

definition best_record :: "('w, 'o) run_state \<Rightarrow> real \<times> pyfloat \<times> nat \<times> 'w option" where
  "best_record st = (best_val_score st, best_val_loss st, best_epoch st, best_weights st)"

text \<open>What \<^verbatim>\<open>main\<close> holds when it reaches line 339.\<close>

record 'w finished =
  final_args :: args
  final_test_score :: real
  final_test_loss :: real
  final_val_score :: real
  final_val_loss :: pyfloat
  final_epoch :: nat
  final_total_time :: real
  final_total_time_taken :: real
  final_avg_time_epoch :: pyfloat
  final_logs :: "string \<rightharpoonup> real list"
  final_weights :: 'w

text \<open>
  Lines 206 to 325 of \<^verbatim>\<open>main\<close>, after \<^verbatim>\<open>load_args\<close>: the optimizer, the warmup
  step size and the epoch loop. The result is the state of the variables when the
  loop is left.
\<close>

definition main_loop ::
  "('w, 'g, 'o) train_fn \<Rightarrow> ('w, 'g) eval_fn \<Rightarrow> ('w, 'g, 'o) env \<Rightarrow> args
     \<Rightarrow> ('w, 'g, 'o) prepared \<Rightarrow> py_error + ('w, 'o) run_state" where
  "main_loop train_fn eval_fn env a0 su =
     (let a = a0\<lparr>total_params := count_parameters su\<rparr> in
      if lr a < 0 \<or> weight_decay a < 0 then Inl ValueError
      else
        case py_div (lr a) (warmup a * int (length (batches (train_loader su)))) of
          Inl e \<Rightarrow> Inl e
        | Inr lr_steps \<Rightarrow>
            epoch_loop train_fn eval_fn env su (warmup_lr_scheduler lr_steps)
              [0 ..< nat (epochs a)] (initial_state a su))"

text \<open>
  Lines 206 to 337: the loop, then the averages, the restore of the best weights
  (\<^verbatim>\<open>model.load_state_dict(best_weights)\<close>, line 331) and the final test evaluation.
\<close>

definition main_run ::
  "('w, 'g, 'o) train_fn \<Rightarrow> ('w, 'g) eval_fn \<Rightarrow> ('w, 'g, 'o) env \<Rightarrow> args
     \<Rightarrow> ('w, 'g, 'o) prepared \<Rightarrow> py_error + 'w finished" where
  "main_run train_fn eval_fn env a0 su =
     (case main_loop train_fn eval_fn env a0 su of
        Inl e \<Rightarrow> Inl e
      | Inr st \<Rightarrow>
          (let avg = np_mean (map Fin (per_epoch_time st)) in
           case best_weights st of
             None \<Rightarrow> Inl UnboundLocalError
           | Some w \<Rightarrow>
               (case eval_fn w (test_loader su) () (use_cuda (cur_args st)) ''Test'' of
                  Inl e \<Rightarrow> Inl e
                | Inr (score, loss) \<Rightarrow>
                    Inr \<lparr>final_args = cur_args st, final_test_score = score,
                         final_test_loss = loss,
                         final_val_score = best_val_score st,
                         final_val_loss = best_val_loss st,
                         final_epoch = best_epoch st,
                         final_total_time = timer_seconds env,
                         final_total_time_taken = time_seconds env,
                         final_avg_time_epoch = avg,
                         final_logs = logs st,
                         final_weights = w\<rparr>)))"

text \<open>The three artifacts of lines 340 to 356.\<close>

datatype 'w artifact =
    LogsCsv "string \<rightharpoonup> real list"
  | ResultsCsv "(string \<times> pyfloat) list"
  | ModelPth args 'w

definition save_outputs :: "'w finished \<Rightarrow> 'w artifact filesystem \<Rightarrow> 'w artifact filesystem" where
  "save_outputs r fs =
     (let dir = outdir (final_args r);
          results = [(''test_score'', Fin (final_test_score r)),
                     (''test_loss'', Fin (final_test_loss r)),
                     (''val_score'', Fin (final_val_score r)),
                     (''val_loss'', final_val_loss r),
                     (''best_epoch'', Fin (real (final_epoch r))),
                     (''total_time'', Fin (final_total_time r))]
      in fs\<lparr>written :=
              (dir @ ''/model.pth'', ModelPth (final_args r) (final_weights r))
            # (dir @ ''/results.csv'', ResultsCsv results)
            # (dir @ ''/logs.csv'', LogsCsv (final_logs r))
            # written fs\<rparr>)"

text \<open>The five values \<^verbatim>\<open>main\<close> returns (line 357).\<close>

type_synonym run_result = "real \<times> real \<times> pyfloat \<times> real \<times> pyfloat"

definition returned :: "'w finished \<Rightarrow> run_result" where
  "returned r =
     (final_test_score r, final_test_loss r, final_val_loss r, final_total_time_taken r,
      final_avg_time_epoch r)"

text \<open>
  \<^verbatim>\<open>main()\<close> with the two epoch functions as arguments: the outcome and the file
  system it leaves.
\<close>

definition main_with ::
  "('w, 'g, 'o) train_fn \<Rightarrow> ('w, 'g) eval_fn \<Rightarrow> (real \<Rightarrow> string) \<Rightarrow> (string \<Rightarrow> bool)
     \<Rightarrow> ('w, 'g, 'o) env \<Rightarrow> args \<Rightarrow> ('w, 'g, 'o) prepared \<Rightarrow> 'w artifact filesystem
     \<Rightarrow> (py_error + run_result) \<times> 'w artifact filesystem" where
  "main_with train_fn eval_fn str_float can_make env parsed su fs =
     (case load_args str_float (cuda_available env) can_make parsed fs of
        (a, fs1) \<Rightarrow>
          (case main_run train_fn eval_fn env a su of
             Inl e \<Rightarrow> (Inl e, fs1)
           | Inr r \<Rightarrow>
               (Inr (returned r),
                if save_logs (final_args r) then save_outputs r fs1 else fs1)))"

text \<open>\<^verbatim>\<open>main()\<close> as the script runs it, with its own trainer and evaluator.\<close>

definition main ::
  "(real \<Rightarrow> string) \<Rightarrow> (string \<Rightarrow> bool) \<Rightarrow> ('w, 'g, 'o) env \<Rightarrow> args \<Rightarrow> ('w, 'g, 'o) prepared
     \<Rightarrow> 'w artifact filesystem \<Rightarrow> (py_error + run_result) \<times> 'w artifact filesystem" where
  "main str_float can_make env parsed su fs =
     main_with (train_epoch env)
       (\<lambda>w. eval_epoch (cuda_available env) (forward env w))
       str_float can_make env parsed su fs"

text \<open>
  An invariant of the epoch loop: the best score is never negative, and the name
  \<^verbatim>\<open>best_weights\<close> is bound only if some logged validation score is positive.
\<close>

definition snapshot_justified :: "('w, 'o) run_state \<Rightarrow> bool" where
  "snapshot_justified st =
     (0 \<le> best_val_score st \<and>
      (best_weights st = None \<or>
       (\<exists>vs s. logs st ''val_score'' = Some vs \<and> s \<in> set vs \<and> 0 < s)))"

section \<open>The multi-run aggregator\<close>

text \<open>
  The call \<^verbatim>\<open>results_to_file(args, ...)\<close> of lines 372 to 375 with its eight
  statistics, in the order of the call. The function itself belongs to
  \<^verbatim>\<open>sat.utils\<close>; the call is what the script hands to it.
\<close>

datatype 'a summary_call =
  ResultsToFile 'a pyfloat pyfloat pyfloat pyfloat pyfloat pyfloat pyfloat pyfloat

type_synonym collected =
  "pyfloat list \<times> pyfloat list \<times> pyfloat list \<times> pyfloat list \<times> pyfloat list"

text \<open>
  The loop of lines 362 to 369 over the run ids. \<open>main_fn\<close> is one call of
  \<^verbatim>\<open>main()\<close>: it takes the state of the world (files, clocks, random generators)
  and gives its outcome and the world it leaves. An exception ends the script.
\<close>

fun run_loop ::
  "('s \<Rightarrow> (py_error + run_result) \<times> 's) \<Rightarrow> nat list \<Rightarrow> collected \<Rightarrow> 's
     \<Rightarrow> (py_error + collected) \<times> 's" where
  "run_loop main_fn [] acc s = (Inr acc, s)"
| "run_loop main_fn (run_id # rest)
     (test_scores, test_losses, vals, total_time_list, avg_time_list) s =
     (case main_fn s of
        (Inl e, s') \<Rightarrow> (Inl e, s')
      | (Inr (score, loss, val, total_secs, avg_secs), s') \<Rightarrow>
          run_loop main_fn rest
            (test_scores @ [Fin score], test_losses @ [Fin loss], vals @ [val],
             total_time_list @ [Fin total_secs], avg_time_list @ [avg_secs]) s')"

text \<open>Lines 361 to 375, the block under \<^verbatim>\<open>if __name__ == "__main__"\<close>.\<close>

definition script ::
  "('s \<Rightarrow> (py_error + run_result) \<times> 's) \<Rightarrow> ('s \<Rightarrow> 'a \<times> 's) \<Rightarrow> 's
     \<Rightarrow> (py_error + 'a summary_call) \<times> 's" where
  "script main_fn load_args_fn s =
     (case run_loop main_fn [0 ..< 10] ([], [], [], [], []) s of
        (Inl e, s') \<Rightarrow> (Inl e, s')
      | (Inr (test_scores, test_losses, vals, total_time_list, avg_time_list), s') \<Rightarrow>
          (case load_args_fn s' of
             (a, s'') \<Rightarrow>
               (Inr (ResultsToFile a
                       (np_mean test_scores) (np_std test_scores)
                       (np_mean test_losses) (np_std test_losses)
                       (np_mean total_time_list) (np_std total_time_list)
                       (np_mean avg_time_list) (np_std avg_time_list)), s'')))"

text \<open>
  The \<open>i\<close>-th invocation of \<open>main_fn\<close> in a sequence that starts in world \<open>s\<close>:
  the world it starts in, and its outcome.
\<close>

definition world_before :: "('s \<Rightarrow> 'r \<times> 's) \<Rightarrow> 's \<Rightarrow> nat \<Rightarrow> 's" where
  "world_before main_fn s i = ((\<lambda>t. snd (main_fn t)) ^^ i) s"

definition outcome :: "('s \<Rightarrow> 'r \<times> 's) \<Rightarrow> 's \<Rightarrow> nat \<Rightarrow> 'r" where
  "outcome main_fn s i = fst (main_fn (world_before main_fn s i))"

text \<open>The results of the first \<open>n\<close> invocations, when each of them returns.\<close>

definition run_results :: "('s \<Rightarrow> (py_error + run_result) \<times> 's) \<Rightarrow> 's \<Rightarrow> nat \<Rightarrow> run_result list" where
  "run_results main_fn s n = map (\<lambda>i. projr (outcome main_fn s i)) [0 ..< n]"

text \<open>The five lists of lines 365 to 369, as collected from a list of results.\<close>

definition test_scores_of :: "run_result list \<Rightarrow> pyfloat list" where
  "test_scores_of rs = map (\<lambda>(score, loss, val, total_secs, avg_secs). Fin score) rs"

definition test_losses_of :: "run_result list \<Rightarrow> pyfloat list" where
  "test_losses_of rs = map (\<lambda>(score, loss, val, total_secs, avg_secs). Fin loss) rs"

definition vals_of :: "run_result list \<Rightarrow> pyfloat list" where
  "vals_of rs = map (\<lambda>(score, loss, val, total_secs, avg_secs). val) rs"

definition total_times_of :: "run_result list \<Rightarrow> pyfloat list" where
  "total_times_of rs = map (\<lambda>(score, loss, val, total_secs, avg_secs). Fin total_secs) rs"

definition avg_times_of :: "run_result list \<Rightarrow> pyfloat list" where
  "avg_times_of rs = map (\<lambda>(score, loss, val, total_secs, avg_secs). avg_secs) rs"

section \<open>Concrete inputs\<close>

text \<open>
  Three graphs in one batch with labels 0, 1, 1 and a model with fixed class scores:
  the arg-max predictions are 0, 1, 0, so two of the three are right.
\<close>

definition toy_model :: "unit batch \<Rightarrow> real list list" where
  "toy_model b = [[2, 1], [0, 3], [5, 4]]"

definition toy_loader :: "unit loader" where
  "toy_loader =
     \<lparr>batches = [\<lparr>graphs = (), batch_y = [0, 1, 1], on_cuda = False\<rparr>], dataset_len = 3\<rparr>"

text \<open>The defaults of the argument parser (lines 29 to 70), no option given.\<close>

definition default_args :: args where
  "default_args =
     \<lparr>seed = 0, dataset = ''MUTAG'', num_heads = 8, num_layers = 3, dim_hidden = 128,
      dropout = 1 / 10, epochs = 200, lr = 3 / 10000, weight_decay = 1 / 10000,
      batch_size = 32, abs_pe = None, abs_pe_dim = 20, outdir = [], warmup = 10,
      layer_norm = False, use_edge_attr = False, edge_dim = 128, gnn_type = ''graph'',
      k_hop = 2, global_pool = ''mean'', se = ''gnn'', aggr = ''add'',
      not_extract_node_feature = False, total_params = 0, memory_usage = 0,
      model_dim = 0, device_id = 0, use_cuda = False, batch_norm = False,
      save_logs = False\<rparr>"

text \<open>
  A stand-in trainer and two stand-in evaluators: the weights are a counter of the
  epochs trained; \<open>stub_eval\<close> scores 1/2 on validation and 3/4 on test,
  \<open>zero_eval\<close> scores 0 everywhere.
\<close>

definition stub_train :: "(nat, unit, unit) train_fn" where
  "stub_train a m l c opt sched epoch flag = Inr (Suc m, opt, 1 / 2)"

definition stub_eval :: "(nat, unit) eval_fn" where
  "stub_eval m l c flag sp = Inr (if sp = ''Val'' then 1 / 2 else 3 / 4, 0)"

definition zero_eval :: "(nat, unit) eval_fn" where
  "zero_eval m l c flag sp = Inr (0, 0)"

definition demo_env :: "(nat, unit, unit) env" where
  "demo_env =
     \<lparr>cuda_available = True, forward = (\<lambda>w. toy_model),
      fit = (\<lambda>w opt b. (Suc w, opt, 1 / 2)), sign_flip = (\<lambda>e i b. b),
      cosine_step = (\<lambda>opt. opt), gpu_utilization = 0, epoch_seconds = (\<lambda>e. 1),
      timer_seconds = 2, time_seconds = 2\<rparr>"

definition demo_prepared :: "(nat, unit, unit) prepared" where
  "demo_prepared =
     \<lparr>train_loader = toy_loader, val_loader = toy_loader, test_loader = toy_loader,
      new_model = 0, new_internals = (), count_parameters = 7\<rparr>"

definition empty_fs :: "nat artifact filesystem" where
  "empty_fs = \<lparr>existing = [], written = []\<rparr>"

text \<open>
  A stand-in for \<^verbatim>\<open>main()\<close> whose world is the number of calls made so far: every
  call returns test score 0.8, test loss 0, total time 5 and average epoch time 7; the
  best validation loss is 2 in the even calls and 4 in the odd ones.
\<close>

definition demo_main :: "nat \<Rightarrow> (py_error + run_result) \<times> nat" where
  "demo_main n = (Inr (4 / 5, 0, Fin (if even n then 2 else 4), 5, Fin 7), Suc n)"

definition demo_load_args :: "nat \<Rightarrow> unit \<times> nat" where
  "demo_load_args n = ((), n)"

definition demo_vals :: "pyfloat list" where
  "demo_vals = [Fin 2, Fin 4, Fin 2, Fin 4, Fin 2, Fin 4, Fin 2, Fin 4, Fin 2, Fin 4]"



section \<open>Properties of the evaluator\<close>

text \<open>
  The prediction for a row of class scores is the position of its first maximal
  entry: in range, at least every entry, and strictly above every earlier one.
\<close>

lemma argmax_from_first_max:
  assumes "bi < length pre" and "(pre @ xs) ! bi = best"
    and "\<forall>x \<in> set pre. x \<le> best" and "\<forall>j < bi. pre ! j < best"
  shows "argmax_from best bi (length pre) xs < length (pre @ xs)
       \<and> (\<forall>x \<in> set (pre @ xs). x \<le> (pre @ xs) ! argmax_from best bi (length pre) xs)
       \<and> (\<forall>j < argmax_from best bi (length pre) xs.
             (pre @ xs) ! j < (pre @ xs) ! argmax_from best bi (length pre) xs)"
  using assms
proof (induction xs arbitrary: pre best bi)
  case Nil
  then show ?case by simp
next
  case (Cons x xs)
  have split: "pre @ x # xs = (pre @ [x]) @ xs" by simp
  show ?case
  proof (cases "best < x")
    case True
    have a: "length pre < length (pre @ [x])" by simp
    have b: "((pre @ [x]) @ xs) ! length pre = x" by simp
    have c: "\<forall>y \<in> set (pre @ [x]). y \<le> x"
      using Cons.prems(3) True by auto
    have d: "\<forall>j < length pre. (pre @ [x]) ! j < x"
    proof (intro allI impI)
      fix j assume "j < length pre"
      then have "pre ! j \<in> set pre" by simp
      then have "pre ! j \<le> best" using Cons.prems(3) by blast
      then show "(pre @ [x]) ! j < x"
        using True \<open>j < length pre\<close> by (simp add: nth_append)
    qed
    from Cons.IH [OF a b c d] True show ?thesis
      unfolding split by simp
  next
    case False
    have a: "bi < length (pre @ [x])" using Cons.prems(1) by simp
    have b: "((pre @ [x]) @ xs) ! bi = best"
      using Cons.prems(1,2) by (simp add: nth_append)
    have c: "\<forall>y \<in> set (pre @ [x]). y \<le> best"
      using Cons.prems(3) False by auto
    have d: "\<forall>j < bi. (pre @ [x]) ! j < best"
      using Cons.prems(1,4) by (simp add: nth_append)
    from Cons.IH [OF a b c d] False show ?thesis
      unfolding split by simp
  qed
qed

lemma argmax_first_max:
  assumes "argmax row = Inr i"
  shows "i < length row \<and> (\<forall>x \<in> set row. x \<le> row ! i) \<and> (\<forall>j < i. row ! j < row ! i)"
proof (cases row)
  case Nil
  with assms show ?thesis by (simp add: argmax_def)
next
  case (Cons x xs)
  with assms have i: "i = argmax_from x 0 (length [x]) xs"
    by (simp add: argmax_def)
  from argmax_from_first_max [of 0 "[x]" xs x] show ?thesis
    unfolding i Cons by simp
qed

lemma argmax_nonempty: "row \<noteq> [] \<Longrightarrow> \<exists>i. argmax row = Inr i"
  by (cases row) (simp_all add: argmax_def)

text \<open>The counter of the loop only ever adds the matches of the batches.\<close>

lemma eval_batches_accumulates:
  "eval_batches available model bs (d + correct)
     = map_sum id (\<lambda>r. d + r) (eval_batches available model bs correct)"
proof (induction bs arbitrary: correct)
  case Nil
  show ?case by simp
next
  case (Cons b bs)
  show ?case
    by (simp add: add.assoc Cons.IH split: sum.splits)
qed

text \<open>
  With the running loss at its initial 0, the report of lines 191 to 200 on a non-empty
  dataset is the accuracy \<open>correct / n\<close> and the loss 0.
\<close>

lemma eval_report_zero_loss:
  "0 < dataset_len loader \<Longrightarrow>
   eval_report 0 correct loader = Inr (real correct / real (dataset_len loader), 0)"
  by (simp add: eval_report_def py_div_def)

text \<open>
  C1. \<^verbatim>\<open>eval_epoch\<close> is meant to count the arg-max predictions that equal the labels
  and to return \<^verbatim>\<open>correct / len(loader.dataset)\<close> as its first result. On the toy
  input the loop counts 2 matches and the report of lines 191 to 200 would be
  \<open>(2/3, 0)\<close>, but the call raises at \<^verbatim>\<open>torch.cat(y_pred)\<close> (line 188), because
  nothing was ever appended to \<^verbatim>\<open>y_pred\<close>: no accuracy is returned.
\<close>

theorem eval_epoch_toy_raises:
  "eval_batches True toy_model (batches toy_loader) 0 = Inr 2 \<and>
   eval_report 0 2 toy_loader = Inr (2 / 3, 0) \<and>
   eval_epoch True toy_model toy_loader () False ''Val'' = Inl CatEmptyList"
  by (simp add: eval_epoch_def torch_cat_def eval_report_def py_div_def toy_model_def
      toy_loader_def cuda_def argmax_def eq_sum_def)

text \<open>
  C8. \<^verbatim>\<open>running_loss\<close> is never touched by the loop, so the loss that line 200 would
  return is \<open>0 / n = 0\<close> (lemma \<open>eval_report_zero_loss\<close>). The code does not get
  there: for every model, loader and flag the call ends in an exception, so no loss
  value is returned at all.
\<close>

theorem eval_epoch_returns_no_loss:
  "eval_epoch available model loader criterion flag sp \<noteq> Inr (score, loss)"
  by (simp add: eval_epoch_def torch_cat_def split: sum.splits)

text \<open>
  With \<^verbatim>\<open>use_cuda\<close> false the trainer never moves a batch to the GPU, so it cannot
  fail for want of a CUDA device.
\<close>

lemma train_batches_cpu:
  "train_batches env a sched e False n xs st \<noteq> Inl er"
proof (induction xs arbitrary: st)
  case Nil
  show ?case by simp
next
  case (Cons x xs)
  obtain i d where x: "x = (i, d)" by (cases x)
  obtain m opt rl where st: "st = (m, opt, rl)" by (cases st)
  show ?case using Cons.IH
    by (simp add: x st Let_def split: prod.splits)
qed

lemma train_epoch_cpu:
  "train_epoch env a m l c opt sched e False \<noteq> Inl CudaUnavailable"
  using train_batches_cpu [of env a sched e "length (batches l)" "enumerate 0 (batches l)" "(m, opt, 0)"]
  by (auto simp: train_epoch_def py_div_def Let_def split: sum.splits prod.splits)

text \<open>
  C9. The \<^verbatim>\<open>use_cuda\<close> argument of \<^verbatim>\<open>eval_epoch\<close> has no effect: two calls that
  differ only in it behave identically. The batch is moved to CUDA unconditionally, so
  on a machine without CUDA an evaluation over a non-empty loader fails at the device
  transfer whatever the flag says (the trainer, by \<open>train_epoch_cpu\<close>, does not).
\<close>

theorem eval_epoch_ignores_use_cuda:
  "eval_epoch available model loader criterion flag1 sp
     = eval_epoch available model loader criterion flag2 sp
   \<and> (\<not> available \<longrightarrow> batches loader \<noteq> [] \<longrightarrow>
        eval_epoch available model loader criterion flag1 sp = Inl CudaUnavailable)"
  by (cases "batches loader") (simp_all add: eval_epoch_def cuda_def)

theorem eval_epoch_ignores_use_cuda_witness:
  "eval_epoch False toy_model toy_loader () True ''Val''
     = eval_epoch False toy_model toy_loader () False ''Val''
   \<and> \<not> False \<and> batches toy_loader \<noteq> []
   \<and> eval_epoch False toy_model toy_loader () True ''Val'' = Inl CudaUnavailable"
proof -
  have ne: "batches toy_loader \<noteq> []"
    by (simp add: toy_loader_def)
  from eval_epoch_ignores_use_cuda [of False toy_model toy_loader "()" True "''Val''" False] ne
  show ?thesis by blast
qed

section \<open>Properties of the configuration loader\<close>

text \<open>
  C6. The output directory path that \<^verbatim>\<open>load_args\<close> derives is a function of the
  parsed arguments alone: two invocations with the same argument values give the same
  path string, whatever the machine (CUDA or not), whatever directories exist already
  and whether or not the directory creations succeed.
\<close>

theorem load_args_outdir_deterministic:
  "outdir (fst (load_args str_float available1 can_make1 parsed fs1))
   = outdir (fst (load_args str_float available2 can_make2 parsed fs2))"
  by (simp add: load_args_def Let_def split: option.splits)

section \<open>Properties of the trainer\<close>

lemma upt_two: "[0 ..< 2] = [0, 1]"
  by (simp add: upt_rec)






section \<open>Properties of the run controller\<close>

text \<open>
  The theorems of this section hold for whatever functions are bound to the names
  \<^verbatim>\<open>train_epoch\<close> and \<^verbatim>\<open>eval_epoch\<close>. With the script's own \<^verbatim>\<open>eval_epoch\<close>,
  which always raises, no epoch is ever completed; see \<open>main_never_returns\<close>.
\<close>

lemma main_never_returns:
  "fst (main str_float can_make env parsed su fs) \<noteq> Inr r"
proof -
  have "main_run (train_epoch env) (\<lambda>w. eval_epoch (cuda_available env) (forward env w))
          env a su \<noteq> Inr f" for a f
    unfolding main_run_def Let_def
    by (auto simp: eval_epoch_def torch_cat_def split: sum.splits option.splits)
  then show ?thesis
    by (auto simp: main_def main_with_def split: prod.splits sum.splits)
qed

text \<open>
  C2. In one pass of the epoch loop in which the trainer and the two evaluations
  return, the best-checkpoint record (best validation score, its loss, the epoch and
  the parameter snapshot) is overwritten with the values of this epoch if the
  validation score is strictly greater than the best so far, and is left as it was
  otherwise; so it changes if and only if the score is strictly greater, and a score
  equal to the best leaves it unchanged.
\<close>

theorem best_checkpoint_update:
  assumes tr: "train_fn (cur_args st) (cur_model st) (train_loader su) () (cur_optimizer st)
                 sched epoch (use_cuda (cur_args st)) = Inr (m, opt, train_loss)"
    and va: "eval_fn m (val_loader su) () (use_cuda (cur_args st)) ''Val'' = Inr (val_score, val_loss)"
    and te: "eval_fn m (test_loader su) () (use_cuda (cur_args st)) ''Test'' = Inr (tst_score, tst_loss)"
  shows "\<exists>st'. epoch_step train_fn eval_fn env su sched epoch st = Inr st'
           \<and> best_record st' =
               (if best_val_score st < val_score
                then (val_score, Fin val_loss, epoch, Some m) else best_record st)
           \<and> (best_record st' \<noteq> best_record st \<longleftrightarrow> best_val_score st < val_score)
           \<and> (val_score = best_val_score st \<longrightarrow> best_record st' = best_record st)"
  using tr va te
  by (auto simp: epoch_step_def best_record_def Let_def)

theorem best_checkpoint_update_witness:
  "(\<exists>st'. epoch_step stub_train stub_eval demo_env demo_prepared (warmup_lr_scheduler 0) 3
            (initial_state default_args demo_prepared) = Inr st'
         \<and> best_record st' = (1 / 2, Fin 0, 3, Some 1))
   \<and> (\<exists>st'. epoch_step stub_train stub_eval demo_env demo_prepared (warmup_lr_scheduler 0) 4
            ((initial_state default_args demo_prepared)
               \<lparr>best_val_score := 1 / 2, best_weights := Some 9\<rparr>) = Inr st'
         \<and> best_record st' = (1 / 2, PosInf, 0, Some 9))"
proof -
  let ?st = "initial_state default_args demo_prepared"
  let ?tied = "?st\<lparr>best_val_score := 1 / 2, best_weights := Some 9\<rparr>"
  have tr: "stub_train (cur_args st) (cur_model st) (train_loader demo_prepared) ()
              (cur_optimizer st) (warmup_lr_scheduler 0) k (use_cuda (cur_args st))
            = Inr (Suc (cur_model st), cur_optimizer st, 1 / 2)" for st :: "(nat, unit) run_state" and k
    by (simp add: stub_train_def)
  have va: "stub_eval m (val_loader demo_prepared) () flag ''Val'' = Inr (1 / 2, 0)" for m flag
    by (simp add: stub_eval_def)
  have te: "stub_eval m (test_loader demo_prepared) () flag ''Test'' = Inr (3 / 4, 0)" for m flag
    by (simp add: stub_eval_def)
  have b: "best_val_score ?st < 1 / 2" "cur_model ?st = 0"
    by (simp_all add: initial_state_def demo_prepared_def)
  have t: "best_val_score ?tied = 1 / 2" "best_record ?tied = (1 / 2, PosInf, 0, Some 9)"
    by (simp_all add: initial_state_def best_record_def)
  from best_checkpoint_update
         [where train_fn = stub_train and eval_fn = stub_eval and st = "?st"
            and su = demo_prepared and env = demo_env, OF tr va te] b
  have first: "\<exists>st'. epoch_step stub_train stub_eval demo_env demo_prepared (warmup_lr_scheduler 0) 3
            ?st = Inr st' \<and> best_record st' = (1 / 2, Fin 0, 3, Some 1)"
    by auto
  from best_checkpoint_update
         [where train_fn = stub_train and eval_fn = stub_eval and st = "?tied"
            and su = demo_prepared and env = demo_env, OF tr va te] t
  have second: "\<exists>st'. epoch_step stub_train stub_eval demo_env demo_prepared (warmup_lr_scheduler 0) 4
            ?tied = Inr st' \<and> best_record st' = (1 / 2, PosInf, 0, Some 9)"
    by auto
  from first second show ?thesis by blast
qed

text \<open>Facts about one step and about the whole loop.\<close>

lemma log_append_val_score:
  "log_append ''test_score'' x (log_append ''val_score'' v (log_append ''train_loss'' t d)) ''val_score''
     = Some ((case d ''val_score'' of None \<Rightarrow> [] | Some vs \<Rightarrow> vs) @ [v])"
  by (simp add: log_append_def)

lemma epoch_step_effect:
  assumes step: "epoch_step train_fn eval_fn env su sched epoch st = Inr st'"
  shows "\<exists>m val_score.
           best_val_score st' = (if best_val_score st < val_score then val_score else best_val_score st)
         \<and> best_weights st' = (if best_val_score st < val_score then Some m else best_weights st)
         \<and> logs st' ''val_score''
             = Some ((case logs st ''val_score'' of None \<Rightarrow> [] | Some vs \<Rightarrow> vs) @ [val_score])
         \<and> save_logs (cur_args st') = save_logs (cur_args st)
         \<and> outdir (cur_args st') = outdir (cur_args st)"
proof -
  from step obtain m opt tl where
    tr: "train_fn (cur_args st) (cur_model st) (train_loader su) () (cur_optimizer st)
           sched epoch (use_cuda (cur_args st)) = Inr (m, opt, tl)"
    unfolding epoch_step_def Let_def by (auto split: sum.splits)
  from step tr obtain vs vl where
    va: "eval_fn m (val_loader su) () (use_cuda (cur_args st)) ''Val'' = Inr (vs, vl)"
    unfolding epoch_step_def Let_def by (auto split: sum.splits)
  from step tr va obtain ts tsl where
    te: "eval_fn m (test_loader su) () (use_cuda (cur_args st)) ''Test'' = Inr (ts, tsl)"
    unfolding epoch_step_def Let_def by (auto split: sum.splits)
  from step tr va te have
      "best_val_score st' = (if best_val_score st < vs then vs else best_val_score st)"
      "best_weights st' = (if best_val_score st < vs then Some m else best_weights st)"
      "logs st' ''val_score''
             = Some ((case logs st ''val_score'' of None \<Rightarrow> [] | Some vs \<Rightarrow> vs) @ [vs])"
      "save_logs (cur_args st') = save_logs (cur_args st)"
      "outdir (cur_args st') = outdir (cur_args st)"
    unfolding epoch_step_def Let_def
    by (auto simp: log_append_val_score split: if_splits)
  then show ?thesis by blast
qed

lemma epoch_step_justified:
  assumes "epoch_step train_fn eval_fn env su sched epoch st = Inr st'"
    and "snapshot_justified st"
  shows "snapshot_justified st'"
proof -
  from epoch_step_effect [OF assms(1)] obtain m v where
    sc: "best_val_score st' = (if best_val_score st < v then v else best_val_score st)"
    and bw: "best_weights st' = (if best_val_score st < v then Some m else best_weights st)"
    and lg: "logs st' ''val_score''
             = Some ((case logs st ''val_score'' of None \<Rightarrow> [] | Some vs \<Rightarrow> vs) @ [v])"
    by blast
  from assms(2) have nonneg: "0 \<le> best_val_score st"
    and old: "best_weights st = None
              \<or> (\<exists>vs s. logs st ''val_score'' = Some vs \<and> s \<in> set vs \<and> 0 < s)"
    by (simp_all add: snapshot_justified_def)
  have "0 \<le> best_val_score st'"
    using sc nonneg by simp
  moreover have "best_weights st' = None
              \<or> (\<exists>vs s. logs st' ''val_score'' = Some vs \<and> s \<in> set vs \<and> 0 < s)"
  proof (cases "best_val_score st < v")
    case True
    then have "0 < v" using nonneg by simp
    then show ?thesis using lg by auto
  next
    case False
    then have "best_weights st' = best_weights st" using bw by simp
    then show ?thesis using old lg by auto
  qed
  ultimately show ?thesis by (simp add: snapshot_justified_def)
qed

lemma epoch_loop_justified:
  "epoch_loop train_fn eval_fn env su sched es st = Inr st' \<Longrightarrow> snapshot_justified st
   \<Longrightarrow> snapshot_justified st'"
proof (induction es arbitrary: st)
  case Nil
  then show ?case by simp
next
  case (Cons e es)
  then show ?case
    by (auto split: sum.splits dest: epoch_step_justified)
qed

lemma initial_state_justified: "snapshot_justified (initial_state a su)"
  by (simp add: snapshot_justified_def initial_state_def)

lemma main_loop_justified:
  "main_loop train_fn eval_fn env a su = Inr st \<Longrightarrow> snapshot_justified st"
  unfolding main_loop_def Let_def
  by (auto split: if_splits sum.splits
      dest: epoch_loop_justified [OF _ initial_state_justified])

lemma main_loop_zero_epochs:
  "epochs a \<le> 0 \<Longrightarrow> main_loop train_fn eval_fn env a su = Inr st
   \<Longrightarrow> st = initial_state (a\<lparr>total_params := count_parameters su\<rparr>) su"
  unfolding main_loop_def Let_def
  by (auto split: if_splits sum.splits)

lemma epoch_loop_effect:
  "epoch_loop train_fn eval_fn env su sched es st = Inr st'
   \<Longrightarrow> save_logs (cur_args st') = save_logs (cur_args st)
       \<and> outdir (cur_args st') = outdir (cur_args st)"
proof (induction es arbitrary: st)
  case Nil
  then show ?case by simp
next
  case (Cons e es)
  from Cons.prems obtain st1 where
    s1: "epoch_step train_fn eval_fn env su sched e st = Inr st1"
    and rest: "epoch_loop train_fn eval_fn env su sched es st1 = Inr st'"
    by (auto split: sum.splits)
  from epoch_step_effect [OF s1] Cons.IH [OF rest] show ?case by auto
qed

lemma main_run_save_logs:
  assumes "main_run train_fn eval_fn env a su = Inr r"
  shows "save_logs (final_args r) = save_logs a"
proof -
  from assms obtain st where
    loop: "main_loop train_fn eval_fn env a su = Inr st"
    and fa: "final_args r = cur_args st"
    unfolding main_run_def Let_def
    by (auto split: sum.splits option.splits prod.splits)
  from loop have "save_logs (cur_args st) = save_logs a"
    unfolding main_loop_def Let_def
    by (auto simp: initial_state_def split: if_splits sum.splits dest!: epoch_loop_effect)
  with fa show ?thesis by simp
qed

text \<open>Two runs of the controller with the stand-in epoch functions, two epochs each.\<close>

lemma zero_run_loop:
  "\<exists>st. main_loop stub_train zero_eval demo_env (default_args\<lparr>epochs := 2\<rparr>) demo_prepared = Inr st
        \<and> logs st ''val_score'' = Some [0, 0]"
  by (simp add: main_loop_def default_args_def demo_prepared_def toy_loader_def py_div_def
      initial_state_def epoch_step_def stub_train_def zero_eval_def demo_env_def
      log_append_def Let_def upt_two)

lemma stub_run_ex:
  "\<exists>r. main_run stub_train stub_eval demo_env (default_args\<lparr>epochs := 2\<rparr>) demo_prepared = Inr r
   \<and> returned r = (3 / 4, 0, Fin 0, 2, Fin 1) \<and> final_logs r ''val_score'' = Some [1 / 2, 1 / 2]
   \<and> final_epoch r = 0 \<and> final_weights r = 1"
  by (simp add: main_run_def main_loop_def default_args_def demo_prepared_def toy_loader_def py_div_def
      initial_state_def epoch_step_def stub_train_def stub_eval_def demo_env_def
      log_append_def Let_def upt_two np_mean_def returned_def)

text \<open>
  C10. The restore of line 331 needs the name \<^verbatim>\<open>best_weights\<close>, which is bound only
  in the branch of a strict improvement over the initial best score 0. A run that
  completes has logged a validation score above 0; if the loop finishes and no logged
  validation score is above 0, or if the loop runs zero times, the run fails with the
  unbound-name error.
\<close>

theorem restore_needs_positive_val_score:
  "(main_run train_fn eval_fn env a su = Inr r \<longrightarrow>
      (\<exists>vs s. final_logs r ''val_score'' = Some vs \<and> s \<in> set vs \<and> 0 < s))
   \<and> (main_loop train_fn eval_fn env a su = Inr st \<longrightarrow>
        (\<forall>vs. logs st ''val_score'' = Some vs \<longrightarrow> (\<forall>s \<in> set vs. s \<le> 0)) \<longrightarrow>
        main_run train_fn eval_fn env a su = Inl UnboundLocalError)
   \<and> (main_loop train_fn eval_fn env a su = Inr st \<longrightarrow> epochs a \<le> 0 \<longrightarrow>
        main_run train_fn eval_fn env a su = Inl UnboundLocalError)"
proof (intro conjI impI)
  assume run: "main_run train_fn eval_fn env a su = Inr r"
  then obtain st' w where
    loop: "main_loop train_fn eval_fn env a su = Inr st'"
    and bound: "best_weights st' = Some w"
    and logs: "final_logs r = logs st'"
    unfolding main_run_def Let_def
    by (auto split: sum.splits option.splits prod.splits)
  from main_loop_justified [OF loop] bound logs
  show "\<exists>vs s. final_logs r ''val_score'' = Some vs \<and> s \<in> set vs \<and> 0 < s"
    by (auto simp: snapshot_justified_def)
next
  assume loop: "main_loop train_fn eval_fn env a su = Inr st"
    and low: "\<forall>vs. logs st ''val_score'' = Some vs \<longrightarrow> (\<forall>s \<in> set vs. s \<le> 0)"
  from main_loop_justified [OF loop] low have "best_weights st = None"
    by (fastforce simp: snapshot_justified_def)
  with loop show "main_run train_fn eval_fn env a su = Inl UnboundLocalError"
    by (simp add: main_run_def Let_def)
next
  assume loop: "main_loop train_fn eval_fn env a su = Inr st" and zero: "epochs a \<le> 0"
  from main_loop_zero_epochs [OF zero loop] have "best_weights st = None"
    by (simp add: initial_state_def)
  with loop show "main_run train_fn eval_fn env a su = Inl UnboundLocalError"
    by (simp add: main_run_def Let_def)
qed

theorem restore_needs_positive_val_score_witness:
  "(\<exists>st. main_loop stub_train zero_eval demo_env (default_args\<lparr>epochs := 2\<rparr>) demo_prepared = Inr st
         \<and> logs st ''val_score'' = Some [0, 0])
   \<and> main_run stub_train zero_eval demo_env (default_args\<lparr>epochs := 2\<rparr>) demo_prepared
       = Inl UnboundLocalError
   \<and> epochs (default_args\<lparr>epochs := 0\<rparr>) \<le> 0
   \<and> main_run stub_train zero_eval demo_env (default_args\<lparr>epochs := 0\<rparr>) demo_prepared
       = Inl UnboundLocalError
   \<and> (\<exists>r. main_run stub_train stub_eval demo_env (default_args\<lparr>epochs := 2\<rparr>) demo_prepared = Inr r
         \<and> final_logs r ''val_score'' = Some [1 / 2, 1 / 2])"
proof -
  from zero_run_loop obtain st where
    loop: "main_loop stub_train zero_eval demo_env (default_args\<lparr>epochs := 2\<rparr>) demo_prepared = Inr st"
    and lg: "logs st ''val_score'' = Some [0, 0]"
    by blast
  have low: "\<forall>vs. logs st ''val_score'' = Some vs \<longrightarrow> (\<forall>s \<in> set vs. s \<le> 0)"
    using lg by simp
  have a: "main_run stub_train zero_eval demo_env (default_args\<lparr>epochs := 2\<rparr>) demo_prepared
       = Inl UnboundLocalError"
    using restore_needs_positive_val_score
            [where train_fn = stub_train and eval_fn = zero_eval and env = demo_env
               and a = "default_args\<lparr>epochs := 2\<rparr>" and su = demo_prepared and st = st]
          loop low
    by blast
  have zero: "epochs (default_args\<lparr>epochs := 0\<rparr>) \<le> 0"
    by simp
  have loop0: "main_loop stub_train zero_eval demo_env (default_args\<lparr>epochs := 0\<rparr>) demo_prepared
       = Inr (initial_state (default_args\<lparr>epochs := 0, total_params := 7\<rparr>) demo_prepared)"
    by (simp add: main_loop_def default_args_def demo_prepared_def toy_loader_def py_div_def
        Let_def)
  have b: "main_run stub_train zero_eval demo_env (default_args\<lparr>epochs := 0\<rparr>) demo_prepared
       = Inl UnboundLocalError"
    using restore_needs_positive_val_score
            [where train_fn = stub_train and eval_fn = zero_eval and env = demo_env
               and a = "default_args\<lparr>epochs := 0\<rparr>" and su = demo_prepared
               and st = "initial_state (default_args\<lparr>epochs := 0, total_params := 7\<rparr>) demo_prepared"]
          loop0 zero
    by blast
  from loop lg a zero b stub_run_ex show ?thesis by blast
qed

text \<open>
  C5. With \<^verbatim>\<open>--epochs 0\<close> (all other options at their defaults) the loop leaves
  the log empty and the best-checkpoint record at its initial values, and nothing is
  written; but the controller does not complete: the restore of line 331 reads
  \<^verbatim>\<open>best_weights\<close>, which was never assigned, and \<^verbatim>\<open>main\<close> raises.
\<close>

theorem main_zero_epochs_fails:
  "fst (main str_float can_make env (default_args\<lparr>epochs := 0\<rparr>) demo_prepared fs)
     = Inl UnboundLocalError
   \<and> snd (main str_float can_make env (default_args\<lparr>epochs := 0\<rparr>) demo_prepared fs) = fs
   \<and> (\<exists>st. main_loop (train_epoch env) (\<lambda>w. eval_epoch (cuda_available env) (forward env w)) env
               (fst (load_args str_float (cuda_available env) can_make
                      (default_args\<lparr>epochs := 0\<rparr>) fs)) demo_prepared = Inr st
           \<and> logs st = Map.empty \<and> best_record st = (0, PosInf, 0, None))"
  by (simp add: main_def main_with_def main_run_def main_loop_def load_args_def default_args_def
      demo_prepared_def toy_loader_def py_div_def initial_state_def best_record_def Let_def)

text \<open>
  C7. Without an output directory (\<^verbatim>\<open>--outdir ''\<close>, so \<^verbatim>\<open>save_logs\<close> is false)
  \<^verbatim>\<open>main\<close> leaves the file system as it found it: no log table, no summary table,
  no checkpoint, no directory. Its outcome is the outcome of the run itself: when the
  run of lines 206 to 337 completes, \<^verbatim>\<open>main\<close> returns its five metrics, and the only
  exceptions are those of the run.
\<close>

theorem no_persistence_without_outdir:
  assumes "outdir parsed = []"
  shows "snd (main_with train_fn eval_fn str_float can_make env parsed su fs) = fs
       \<and> (\<forall>r. main_run train_fn eval_fn env
                 (parsed\<lparr>use_cuda := cuda_available env, batch_norm := \<not> layer_norm parsed,
                         save_logs := False\<rparr>) su = Inr r
               \<longrightarrow> fst (main_with train_fn eval_fn str_float can_make env parsed su fs)
                     = Inr (returned r))
       \<and> (\<forall>e. main_run train_fn eval_fn env
                 (parsed\<lparr>use_cuda := cuda_available env, batch_norm := \<not> layer_norm parsed,
                         save_logs := False\<rparr>) su = Inl e
               \<longrightarrow> fst (main_with train_fn eval_fn str_float can_make env parsed su fs) = Inl e)"
proof -
  let ?a = "parsed\<lparr>use_cuda := cuda_available env, batch_norm := \<not> layer_norm parsed,
                    save_logs := False\<rparr>"
  have la: "load_args str_float (cuda_available env) can_make parsed fs = (?a, fs)"
    using assms by (simp add: load_args_def Let_def)
  show ?thesis
  proof (cases "main_run train_fn eval_fn env ?a su")
    case (Inl e)
    then show ?thesis by (simp add: main_with_def la)
  next
    case (Inr r)
    from main_run_save_logs [OF Inr] have "\<not> save_logs (final_args r)" by simp
    with Inr show ?thesis by (simp add: main_with_def la)
  qed
qed

theorem no_persistence_without_outdir_witness:
  "outdir (default_args\<lparr>epochs := 2\<rparr>) = []
   \<and> main_with stub_train stub_eval (\<lambda>x. ''x'') (\<lambda>p. True) demo_env
        (default_args\<lparr>epochs := 2\<rparr>) demo_prepared empty_fs
       = (Inr (3 / 4, 0, Fin 0, 2, Fin 1), empty_fs)"
proof -
  have h: "outdir (default_args\<lparr>epochs := 2\<rparr>) = []"
    by (simp add: default_args_def)
  let ?a = "default_args\<lparr>epochs := 2, use_cuda := cuda_available demo_env,
                batch_norm := \<not> layer_norm (default_args\<lparr>epochs := 2\<rparr>), save_logs := False\<rparr>"
  have run: "\<exists>r. main_run stub_train stub_eval demo_env ?a demo_prepared = Inr r
               \<and> returned r = (3 / 4, 0, Fin 0, 2, Fin 1)"
    by (simp add: main_run_def main_loop_def default_args_def demo_prepared_def toy_loader_def
        py_div_def initial_state_def epoch_step_def stub_train_def stub_eval_def demo_env_def
        log_append_def Let_def upt_two np_mean_def returned_def)
  from no_persistence_without_outdir
         [OF h, where train_fn = stub_train and eval_fn = stub_eval and env = demo_env
            and su = demo_prepared and fs = empty_fs and str_float = "\<lambda>x. ''x''"
            and can_make = "\<lambda>p. True"] run h
  show ?thesis
    by (auto simp: prod_eq_iff)
qed

section \<open>Properties of the multi-run aggregator\<close>

lemma world_before_Suc:
  "world_before main_fn s (Suc i) = world_before main_fn (snd (main_fn s)) i"
  unfolding world_before_def
  using funpow_swap1 [of "\<lambda>t. snd (main_fn t)" i s] by simp

lemma outcome_Suc:
  "outcome main_fn s (Suc i) = outcome main_fn (snd (main_fn s)) i"
  by (simp only: outcome_def world_before_Suc)

lemma run_results_Suc:
  "run_results main_fn s (Suc n)
     = projr (fst (main_fn s)) # run_results main_fn (snd (main_fn s)) n"
proof -
  have "[0 ..< Suc n] = 0 # map Suc [0 ..< n]"
    by (simp add: upt_conv_Cons map_Suc_upt del: upt_Suc)
  then show ?thesis
    by (simp add: run_results_def outcome_Suc o_def del: upt_Suc)
       (simp add: outcome_def world_before_def)
qed

lemma run_loop_all_return:
  assumes "\<forall>i < length ids. \<exists>r. outcome main_fn s i = Inr r"
  shows "run_loop main_fn ids (a1, a2, a3, a4, a5) s =
           (Inr (a1 @ test_scores_of (run_results main_fn s (length ids)),
                 a2 @ test_losses_of (run_results main_fn s (length ids)),
                 a3 @ vals_of (run_results main_fn s (length ids)),
                 a4 @ total_times_of (run_results main_fn s (length ids)),
                 a5 @ avg_times_of (run_results main_fn s (length ids))),
            world_before main_fn s (length ids))"
  using assms
proof (induction ids arbitrary: s a1 a2 a3 a4 a5)
  case Nil
  show ?case
    by (simp add: run_results_def test_scores_of_def test_losses_of_def vals_of_def
        total_times_of_def avg_times_of_def world_before_def)
next
  case (Cons run_id rest)
  from Cons.prems have "\<exists>r. outcome main_fn s 0 = Inr r" by auto
  then obtain r where r: "fst (main_fn s) = Inr r"
    by (auto simp: outcome_def world_before_def)
  obtain score loss val total_secs avg_secs where
    rr: "r = (score, loss, val, total_secs, avg_secs)" by (cases r)
  define s1 where "s1 = snd (main_fn s)"
  have call: "main_fn s = (Inr (score, loss, val, total_secs, avg_secs), s1)"
    using r rr by (simp add: s1_def prod_eq_iff)
  have later: "\<forall>i < length rest. \<exists>r. outcome main_fn s1 i = Inr r"
    using Cons.prems by (auto simp: outcome_Suc [symmetric] s1_def)
  have res: "run_results main_fn s (length (run_id # rest))
               = (score, loss, val, total_secs, avg_secs) # run_results main_fn s1 (length rest)"
    using r rr by (simp add: run_results_Suc s1_def)
  show ?case
    unfolding res
    using Cons.IH [OF later]
    by (simp add: call world_before_Suc s1_def [symmetric] test_scores_of_def
        test_losses_of_def vals_of_def total_times_of_def avg_times_of_def)
qed

text \<open>An exception in the first run ends the script with that exception.\<close>

lemma script_stops_at_first_error:
  "main_fn s = (Inl e, s') \<Longrightarrow> script main_fn load_args_fn s = (Inl e, s')"
  by (simp add: script_def upt_rec [of 0 10])

text \<open>
  C4 as amended. When each of the ten invocations of the run controller returns, the
  script has invoked it exactly ten times, one after the other, has collected the five
  values of each run in five lists of length ten, and calls the summary writer with
  the mean and the standard deviation of four of them: test score, test loss, total
  wall time and average per-epoch time.
\<close>

theorem script_summarises_four_metrics:
  assumes "\<forall>i < 10. \<exists>r. outcome main_fn s i = Inr r"
  shows "length (run_results main_fn s 10) = 10
       \<and> run_loop main_fn [0 ..< 10] ([], [], [], [], []) s =
           (Inr (test_scores_of (run_results main_fn s 10),
                 test_losses_of (run_results main_fn s 10),
                 vals_of (run_results main_fn s 10),
                 total_times_of (run_results main_fn s 10),
                 avg_times_of (run_results main_fn s 10)),
            world_before main_fn s 10)
       \<and> script main_fn load_args_fn s =
           (Inr (ResultsToFile (fst (load_args_fn (world_before main_fn s 10)))
                   (np_mean (test_scores_of (run_results main_fn s 10)))
                   (np_std (test_scores_of (run_results main_fn s 10)))
                   (np_mean (test_losses_of (run_results main_fn s 10)))
                   (np_std (test_losses_of (run_results main_fn s 10)))
                   (np_mean (total_times_of (run_results main_fn s 10)))
                   (np_std (total_times_of (run_results main_fn s 10)))
                   (np_mean (avg_times_of (run_results main_fn s 10)))
                   (np_std (avg_times_of (run_results main_fn s 10)))),
            snd (load_args_fn (world_before main_fn s 10)))"
proof -
  have len: "length [0 ..< 10::nat] = 10" by simp
  have loop: "run_loop main_fn [0 ..< 10] ([], [], [], [], []) s =
           (Inr (test_scores_of (run_results main_fn s 10),
                 test_losses_of (run_results main_fn s 10),
                 vals_of (run_results main_fn s 10),
                 total_times_of (run_results main_fn s 10),
                 avg_times_of (run_results main_fn s 10)),
            world_before main_fn s 10)"
    using run_loop_all_return [of "[0 ..< 10]" main_fn s "[]" "[]" "[]" "[]" "[]"] assms
    unfolding len by simp
  have "length (run_results main_fn s 10) = 10"
    by (simp add: run_results_def)
  with loop show ?thesis
    by (simp add: script_def split: prod.splits)
qed

text \<open>The statistics of the stand-in runs.\<close>

lemma upt_ten: "[0 ..< 10] = [0, 1, 2, 3, 4, 5, 6, 7, 8, 9]"
  by (simp add: upt_rec)

lemma demo_world: "world_before demo_main 0 i = i"
  by (induction i) (simp_all add: world_before_def demo_main_def)

lemma demo_outcome:
  "outcome demo_main 0 i = Inr (4 / 5, 0, Fin (if even i then 2 else 4), 5, Fin 7)"
  by (simp add: outcome_def demo_world) (simp add: demo_main_def)

lemma demo_run_results:
  "run_results demo_main 0 10
     = map (\<lambda>i. (4 / 5, 0, Fin (if even i then 2 else 4), 5, Fin 7)) [0 ..< 10]"
  by (simp add: run_results_def demo_outcome)

lemma demo_vals_collected: "vals_of (run_results demo_main 0 10) = demo_vals"
  by (simp add: demo_run_results vals_of_def demo_vals_def upt_ten)

lemma demo_stats:
  "np_mean (test_scores_of (run_results demo_main 0 10)) = Fin (4 / 5)"
  "np_std (test_scores_of (run_results demo_main 0 10)) = Fin 0"
  "np_mean (test_losses_of (run_results demo_main 0 10)) = Fin 0"
  "np_std (test_losses_of (run_results demo_main 0 10)) = Fin 0"
  "np_mean (total_times_of (run_results demo_main 0 10)) = Fin 5"
  "np_std (total_times_of (run_results demo_main 0 10)) = Fin 0"
  "np_mean (avg_times_of (run_results demo_main 0 10)) = Fin 7"
  "np_std (avg_times_of (run_results demo_main 0 10)) = Fin 0"
  by (simp_all add: demo_run_results upt_ten np_mean_def np_std_def test_scores_of_def
      test_losses_of_def total_times_of_def avg_times_of_def)

theorem script_summarises_four_metrics_witness:
  "script demo_main demo_load_args 0 =
     (Inr (ResultsToFile () (Fin (4 / 5)) (Fin 0) (Fin 0) (Fin 0) (Fin 5) (Fin 0) (Fin 7) (Fin 0)),
      10)"
proof -
  have all_return: "\<forall>i < 10. \<exists>r. outcome demo_main 0 i = Inr r"
    using demo_outcome by blast
  from script_summarises_four_metrics [OF all_return, of demo_load_args]
  show ?thesis
    by (simp add: demo_stats demo_world demo_load_args_def)
qed

text \<open>
  C4 as stated says that the mean and the standard deviation of each of the five
  metrics are written. For the stand-in runs the collected best validation losses have
  mean 3 and standard deviation 1, and neither is among the eight statistics of the
  call: the list \<^verbatim>\<open>vals\<close> is filled and never read.
\<close>

theorem script_omits_validation_loss:
  "vals_of (run_results demo_main 0 10) = demo_vals
   \<and> np_mean demo_vals = Fin 3 \<and> np_std demo_vals = Fin 1
   \<and> fst (script demo_main demo_load_args 0) =
       Inr (ResultsToFile () (Fin (4 / 5)) (Fin 0) (Fin 0) (Fin 0) (Fin 5) (Fin 0) (Fin 7) (Fin 0))"
proof -
  have m: "np_mean demo_vals = Fin 3"
    by (simp add: np_mean_def demo_vals_def)
  have sd: "np_std demo_vals = Fin 1"
    by (simp add: np_std_def demo_vals_def)
  have call: "fst (script demo_main demo_load_args 0) =
       Inr (ResultsToFile () (Fin (4 / 5)) (Fin 0) (Fin 0) (Fin 0) (Fin 5) (Fin 0) (Fin 7) (Fin 0))"
    by (simp add: script_def upt_ten demo_main_def demo_load_args_def np_mean_def np_std_def)
  from demo_vals_collected m sd call show ?thesis by blast
qed

end
